theory Spec2Isabelle
  imports Main
begin

section \<open>Python strings\<close>

text \<open>
  A Python \<open>str\<close> is a sequence of Unicode code points; it is modelled as a list of
  natural numbers. \<open>cps\<close> turns an ASCII literal into that representation. Bytes
  (file contents, response bodies) are lists of naturals below 256.
\<close>

type_synonym pystr = "nat list"

definition cps :: "string \<Rightarrow> pystr" where
  "cps s = map of_char s"

abbreviation NL :: nat where "NL \<equiv> 10"
abbreviation QUOTE :: nat where "QUOTE \<equiv> 34"
abbreviation SLASH :: nat where "SLASH \<equiv> 47"
abbreviation PERCENT :: nat where "PERCENT \<equiv> 37"

text \<open>
  \<open>str.isspace\<close> of one character, which is also what \<open>str.strip()\<close> removes and what
  \<open>\s\<close> matches in a \<open>str\<close> pattern: U+0009..U+000D, U+001C..U+0020, U+0085, U+00A0,
  U+1680, U+2000..U+200A, U+2028, U+2029, U+202F, U+205F, U+3000.
\<close>

definition isspace :: "nat \<Rightarrow> bool" where
  "isspace c = ((9 \<le> c \<and> c \<le> 13) \<or> (28 \<le> c \<and> c \<le> 32) \<or> c = 133 \<or> c = 160 \<or> c = 5760
     \<or> (8192 \<le> c \<and> c \<le> 8202) \<or> c = 8232 \<or> c = 8233 \<or> c = 8239 \<or> c = 8287 \<or> c = 12288)"

text \<open>
  The line boundaries of \<open>str.splitlines\<close>: \<open>\n\<close>, \<open>\r\<close>, \<open>\v\<close>, \<open>\f\<close>, U+001C, U+001D,
  U+001E, U+0085, U+2028, U+2029 (and \<open>\r\n\<close> as one boundary).
\<close>

definition islinebreak :: "nat \<Rightarrow> bool" where
  "islinebreak c = ((10 \<le> c \<and> c \<le> 13) \<or> (28 \<le> c \<and> c \<le> 30) \<or> c = 133 \<or> c = 8232 \<or> c = 8233)"

text \<open>
  Case mapping. The tables of the Unicode database are reproduced for U+0000..U+00FF
  (ASCII and Latin-1): the upper-case letters there are A..Z, U+00C0..U+00D6 and
  U+00D8..U+00DE, each 32 below its lower-case letter. Code points from U+0100 on are
  left as they are and count as not upper-case.
\<close>

definition isupper :: "nat \<Rightarrow> bool" where
  "isupper c = ((65 \<le> c \<and> c \<le> 90) \<or> (192 \<le> c \<and> c \<le> 214) \<or> (216 \<le> c \<and> c \<le> 222))"

definition lower_cp :: "nat \<Rightarrow> nat" where
  "lower_cp c = (if isupper c then c + 32 else c)"

definition lower :: "pystr \<Rightarrow> pystr" where
  "lower s = map lower_cp s"

definition strip :: "pystr \<Rightarrow> pystr" where
  "strip s = rev (dropWhile isspace (rev (dropWhile isspace s)))"

definition startswith :: "pystr \<Rightarrow> pystr \<Rightarrow> bool" where
  "startswith s p = (take (length p) s = p)"

definition endswith :: "pystr \<Rightarrow> pystr \<Rightarrow> bool" where
  "endswith s x = (length x \<le> length s \<and> drop (length s - length x) s = x)"

text \<open>\<open>sub in s\<close> for strings.\<close>

fun contains :: "pystr \<Rightarrow> pystr \<Rightarrow> bool" where
  "contains [] sub = (sub = [])"
| "contains (c # cs) sub = (startswith (c # cs) sub \<or> contains cs sub)"

definition removeprefix :: "pystr \<Rightarrow> pystr \<Rightarrow> pystr" where
  "removeprefix s p = (if startswith s p then drop (length p) s else s)"

definition removesuffix :: "pystr \<Rightarrow> pystr \<Rightarrow> pystr" where
  "removesuffix s x = (if x \<noteq> [] \<and> endswith s x then take (length s - length x) s else s)"

text \<open>\<open>sep.join(xs)\<close>.\<close>

fun join :: "pystr \<Rightarrow> pystr list \<Rightarrow> pystr" where
  "join sep [] = []"
| "join sep [x] = x"
| "join sep (x # y # ys) = x @ sep @ join sep (y # ys)"

text \<open>
  \<open>str.splitlines()\<close>: the text is cut at every line boundary, the boundaries are
  dropped, \<open>\r\n\<close> is one boundary, and a boundary at the very end opens no further
  line. \<open>cur\<close> is the line read so far, \<open>after_cr\<close> says that the previous character
  was a \<open>\r\<close> boundary, whose \<open>\n\<close> is then skipped.
\<close>

fun splitlines_from :: "pystr \<Rightarrow> bool \<Rightarrow> pystr \<Rightarrow> pystr list" where
  "splitlines_from cur after_cr [] = (if cur = [] then [] else [cur])"
| "splitlines_from cur after_cr (c # cs) =
     (if after_cr \<and> c = NL then splitlines_from cur False cs
      else if islinebreak c then cur # splitlines_from [] (c = 13) cs
      else splitlines_from (cur @ [c]) False cs)"

definition splitlines :: "pystr \<Rightarrow> pystr list" where
  "splitlines s = splitlines_from [] False s"

section \<open>Regular expressions\<close>

text \<open>
  The part of Python's \<open>re\<close> that \<open>extract_url_lines\<close> uses: a pattern is a sequence of
  items, matched from left to right by backtracking. \<open>Bol\<close> is \<open>^\<close> under
  \<open>re.MULTILINE\<close>, \<open>Lit c\<close> one literal character, \<open>Star k\<close> the greedy \<open>k*\<close> and
  \<open>LazyStar k\<close> the non-greedy \<open>k*?\<close> of a character class; \<open>Space\<close> is \<open>\s\<close> and
  \<open>Dot\<close> is \<open>.\<close>, any character but \<open>\n\<close>.
\<close>

datatype cclass = Space | Dot

fun in_class :: "cclass \<Rightarrow> nat \<Rightarrow> bool" where
  "in_class Space c = isspace c"
| "in_class Dot c = (c \<noteq> NL)"

datatype item = Bol | Lit nat | Star cclass | LazyStar cclass

text \<open>
  \<open>match_here p bol s\<close> matches the pattern \<open>p\<close> at the start of \<open>s\<close>, where \<open>bol\<close> says
  that this position is the start of the text or follows a \<open>\n\<close>. It returns the length
  of the match the backtracking search finds first, or \<open>None\<close>. A greedy star takes a
  character whenever it can and gives it back when the rest fails; a non-greedy star
  tries the rest first.
\<close>

fun match_here :: "item list \<Rightarrow> bool \<Rightarrow> pystr \<Rightarrow> nat option" where
  "match_here [] bol s = Some 0"
| "match_here (Bol # p) bol s = (if bol then match_here p bol s else None)"
| "match_here (Lit c # p) bol [] = None"
| "match_here (Lit c # p) bol (x # xs) =
     (if x = c then map_option Suc (match_here p (x = NL) xs) else None)"
| "match_here (Star k # p) bol [] = match_here p bol []"
| "match_here (Star k # p) bol (x # xs) =
     (if in_class k x
      then (case match_here (Star k # p) (x = NL) xs of
              Some n \<Rightarrow> Some (Suc n)
            | None \<Rightarrow> match_here p bol (x # xs))
      else match_here p bol (x # xs))"
| "match_here (LazyStar k # p) bol [] = match_here p bol []"
| "match_here (LazyStar k # p) bol (x # xs) =
     (case match_here p bol (x # xs) of
        Some n \<Rightarrow> Some n
      | None \<Rightarrow>
          (if in_class k x then map_option Suc (match_here (LazyStar k # p) (x = NL) xs)
           else None))"

text \<open>
  \<open>pattern.finditer(text)\<close>, as the spans (start, end) of its matches: the search goes
  through the text from left to right; at the first position where the pattern
  matches, the match is recorded and the search goes on behind it; where it does not
  match, the search moves one character on. (After an empty match the search also moves
  one character on; the pattern below never matches the empty string.) \<open>pos\<close> is the
  position of the rest \<open>s\<close> in the text.
\<close>

function finditer_from :: "item list \<Rightarrow> bool \<Rightarrow> nat \<Rightarrow> pystr \<Rightarrow> (nat \<times> nat) list" where
  "finditer_from p bol pos [] = (case match_here p bol [] of Some n \<Rightarrow> [(pos, pos)] | None \<Rightarrow> [])"
| "finditer_from p bol pos (x # xs) =
     (case match_here p bol (x # xs) of
        None \<Rightarrow> finditer_from p (x = NL) (Suc pos) xs
      | Some 0 \<Rightarrow> (pos, pos) # finditer_from p (x = NL) (Suc pos) xs
      | Some (Suc n) \<Rightarrow>
          (pos, pos + Suc n) # finditer_from p ((x # xs) ! n = NL) (pos + Suc n) (drop n xs))"
  by pat_completeness auto
termination
  by (relation "measure (\<lambda>(p, bol, pos, s). length s)") auto

definition finditer :: "item list \<Rightarrow> pystr \<Rightarrow> (nat \<times> nat) list" where
  "finditer p text = finditer_from p True 0 text"

text \<open>\<open>pattern.findall(text)\<close> for a pattern without groups: the matched texts.\<close>

definition findall :: "item list \<Rightarrow> pystr \<Rightarrow> pystr list" where
  "findall p text = map (\<lambda>(i, j). take (j - i) (drop i text)) (finditer p text)"

section \<open>The extractor\<close>

text \<open>
  The pattern \<^verbatim>\<open>^\s*"url":\s*".*?"\<close> of \<open>extract_url_lines\<close>, compiled with
  \<open>re.MULTILINE\<close>.
\<close>

definition url_pattern :: "item list" where
  "url_pattern =
     [Bol, Star Space] @ map Lit (cps ''\"url\":'') @ [Star Space, Lit QUOTE, LazyStar Dot, Lit QUOTE]"

definition extract_url_lines :: "pystr \<Rightarrow> pystr list" where
  "extract_url_lines text = findall url_pattern text"

section \<open>Normalisation\<close>

text \<open>
  \<open>remove_duplicates_from_slice\<close> returns \<open>list(set(...))\<close>: the elements of a set, in an
  order Python does not specify. Its value is modelled as that set; a caller that
  iterates over the result sees some listing of it (\<open>listing_of\<close>).
\<close>

definition remove_duplicates_from_slice :: "pystr \<Rightarrow> pystr set" where
  "remove_duplicates_from_slice provided_slice = set (splitlines provided_slice)"


definition remove_whitespace_from_slice :: "pystr list \<Rightarrow> pystr list" where
  "remove_whitespace_from_slice provided_slice =
     map strip (filter (\<lambda>line. strip line \<noteq> []) provided_slice)"

definition convert_uppercase_to_lowercase :: "pystr list \<Rightarrow> pystr list" where
  "convert_uppercase_to_lowercase provided_slice = map lower provided_slice"

text \<open>
  The three steps as \<open>main\<close> chains them: strip and drop empty lines, lower-case, join
  with \<open>\n\<close> and remove duplicates.
\<close>

definition normalize_lines :: "pystr list \<Rightarrow> pystr set" where
  "normalize_lines url_lines =
     remove_duplicates_from_slice
       (join [NL] (convert_uppercase_to_lowercase (remove_whitespace_from_slice url_lines)))"

section \<open>File names from URLs\<close>

datatype exn =
    ValueError pystr
  | OSError pystr
  | RuntimeError pystr
  | RequestException pystr
  | OtherError pystr

text \<open>
  \<open>urllib.parse.urlparse(url).path\<close>, after CPython 3.12: leading C0 control characters
  and spaces are stripped, tabs and newlines are removed, a scheme is split off at the
  first colon when everything before it is a scheme, a network location follows \<open>//\<close> up
  to the first of \<open>/ ? #\<close>, the fragment and the query are cut off, and for the schemes
  that use parameters the part of the last path segment from its first \<open>;\<close> on is cut
  off. A network location with only one of the two square brackets raises
  \<open>ValueError\<close>. (The two further validations of the network location, of a bracketed
  host literal and of the NFKC form of a non-ASCII host, are left out: they can only
  raise \<open>ValueError\<close>, and only for a network location with both brackets or with
  non-ASCII characters.)
\<close>

definition isascii_alpha :: "nat \<Rightarrow> bool" where
  "isascii_alpha c = ((65 \<le> c \<and> c \<le> 90) \<or> (97 \<le> c \<and> c \<le> 122))"

definition scheme_char :: "nat \<Rightarrow> bool" where
  "scheme_char c = (isascii_alpha c \<or> (48 \<le> c \<and> c \<le> 57) \<or> c = 43 \<or> c = 45 \<or> c = 46)"

definition uses_params :: "pystr list" where
  "uses_params = map cps [[], ''ftp'', ''hdl'', ''prospero'', ''http'', ''imap'', ''https'',
     ''shttp'', ''rtsp'', ''rtspu'', ''sip'', ''sips'', ''mms'', ''sftp'', ''tel'']"

text \<open>The scheme (lower-cased) and what follows its colon.\<close>

definition split_scheme :: "pystr \<Rightarrow> pystr \<times> pystr" where
  "split_scheme url =
     (let pre = takeWhile (\<lambda>c. c \<noteq> 58) url; rest = dropWhile (\<lambda>c. c \<noteq> 58) url
      in if rest \<noteq> [] \<and> pre \<noteq> [] \<and> isascii_alpha (hd url) \<and> list_all scheme_char pre
         then (lower pre, tl rest) else ([], url))"

definition splitnetloc :: "pystr \<Rightarrow> pystr \<times> pystr" where
  "splitnetloc url =
     (if take 2 url = [SLASH, SLASH]
      then (takeWhile (\<lambda>c. c \<noteq> SLASH \<and> c \<noteq> 63 \<and> c \<noteq> 35) (drop 2 url),
            dropWhile (\<lambda>c. c \<noteq> SLASH \<and> c \<noteq> 63 \<and> c \<noteq> 35) (drop 2 url))
      else ([], url))"

text \<open>\<open>os.path.basename\<close> (POSIX): what follows the last slash.\<close>

definition basename :: "pystr \<Rightarrow> pystr" where
  "basename p = rev (takeWhile (\<lambda>c. c \<noteq> SLASH) (rev p))"

text \<open>\<open>_splitparams\<close>: the path up to the first \<open>;\<close> of its last segment.\<close>

definition splitparams :: "pystr \<Rightarrow> pystr" where
  "splitparams url =
     (let seg = basename url
      in take (length url - length seg) url @ takeWhile (\<lambda>c. c \<noteq> 59) seg)"

definition urlparse_path :: "pystr \<Rightarrow> exn + pystr" where
  "urlparse_path url0 =
     (let url1 = filter (\<lambda>c. c \<noteq> 9 \<and> c \<noteq> 13 \<and> c \<noteq> NL) (dropWhile (\<lambda>c. c \<le> 32) url0);
          (scheme, url2) = split_scheme url1;
          (netloc, url3) = splitnetloc url2
      in if (91 \<in> set netloc) \<noteq> (93 \<in> set netloc) then Inl (ValueError (cps ''Invalid IPv6 URL''))
         else let url4 = takeWhile (\<lambda>c. c \<noteq> 35) url3;
                  url5 = takeWhile (\<lambda>c. c \<noteq> 63) url4
              in Inr (if scheme \<in> set uses_params \<and> 59 \<in> set url5 then splitparams url5 else url5))"

text \<open>
  \<open>urllib.parse.unquote\<close>. \<open>unquote_to_bytes\<close> splits at every \<open>%\<close>; a piece that starts
  with two hexadecimal digits contributes the byte they denote and the rest of the
  piece, any other piece keeps its \<open>%\<close>.
\<close>

definition ishex :: "nat \<Rightarrow> bool" where
  "ishex c = ((48 \<le> c \<and> c \<le> 57) \<or> (65 \<le> c \<and> c \<le> 70) \<or> (97 \<le> c \<and> c \<le> 102))"

definition hexval :: "nat \<Rightarrow> nat" where
  "hexval c = (if c \<le> 57 then c - 48 else if c \<le> 70 then c - 55 else c - 87)"

fun split_on :: "nat \<Rightarrow> pystr \<Rightarrow> pystr list" where
  "split_on sep [] = [[]]"
| "split_on sep (c # cs) =
     (if c = sep then [] # split_on sep cs
      else (case split_on sep cs of [] \<Rightarrow> [[c]] | h # t \<Rightarrow> (c # h) # t))"

definition unquote_item :: "pystr \<Rightarrow> nat list" where
  "unquote_item item =
     (case item of
        a # b # rest \<Rightarrow>
          (if ishex a \<and> ishex b then (hexval a * 16 + hexval b) # rest else PERCENT # item)
      | _ \<Rightarrow> PERCENT # item)"

definition unquote_to_bytes :: "pystr \<Rightarrow> nat list" where
  "unquote_to_bytes s =
     (case split_on PERCENT s of [] \<Rightarrow> [] | b0 # items \<Rightarrow> b0 @ concat (map unquote_item items))"

text \<open>
  \<open>bytes.decode('utf-8', 'replace')\<close>: a well-formed sequence gives its code point; an
  ill-formed one gives U+FFFD for its longest prefix that starts a well-formed sequence
  (one byte when there is none), and decoding goes on behind that prefix.
\<close>

definition iscont :: "nat \<Rightarrow> bool" where
  "iscont c = (128 \<le> c \<and> c \<le> 191)"

text \<open>The second byte that may follow the lead byte \<open>b\<close> of a three- or four-byte sequence.\<close>

definition second_ok :: "nat \<Rightarrow> nat \<Rightarrow> bool" where
  "second_ok b c =
     (if b = 224 then 160 \<le> c \<and> c \<le> 191
      else if b = 237 then 128 \<le> c \<and> c \<le> 159
      else if b = 240 then 144 \<le> c \<and> c \<le> 191
      else if b = 244 then 128 \<le> c \<and> c \<le> 143
      else iscont c)"

abbreviation REPLACEMENT :: nat where "REPLACEMENT \<equiv> 65533"

fun utf8_decode :: "nat list \<Rightarrow> pystr" where
  "utf8_decode [] = []"
| "utf8_decode (b # bs) =
     (if b < 128 then b # utf8_decode bs
      else if 194 \<le> b \<and> b \<le> 223 then
        (case bs of
           c1 # r1 \<Rightarrow>
             (if iscont c1 then ((b - 192) * 64 + (c1 - 128)) # utf8_decode r1
              else REPLACEMENT # utf8_decode bs)
         | [] \<Rightarrow> [REPLACEMENT])
      else if 224 \<le> b \<and> b \<le> 239 then
        (case bs of
           c1 # r1 \<Rightarrow>
             (if second_ok b c1 then
                (case r1 of
                   c2 # r2 \<Rightarrow>
                     (if iscont c2
                      then ((b - 224) * 4096 + (c1 - 128) * 64 + (c2 - 128)) # utf8_decode r2
                      else REPLACEMENT # utf8_decode r1)
                 | [] \<Rightarrow> [REPLACEMENT])
              else REPLACEMENT # utf8_decode bs)
         | [] \<Rightarrow> [REPLACEMENT])
      else if 240 \<le> b \<and> b \<le> 244 then
        (case bs of
           c1 # r1 \<Rightarrow>
             (if second_ok b c1 then
                (case r1 of
                   c2 # r2 \<Rightarrow>
                     (if iscont c2 then
                        (case r2 of
                           c3 # r3 \<Rightarrow>
                             (if iscont c3
                              then ((b - 240) * 262144 + (c1 - 128) * 4096 + (c2 - 128) * 64
                                    + (c3 - 128)) # utf8_decode r3
                              else REPLACEMENT # utf8_decode r2)
                         | [] \<Rightarrow> [REPLACEMENT])
                      else REPLACEMENT # utf8_decode r1)
                 | [] \<Rightarrow> [REPLACEMENT])
              else REPLACEMENT # utf8_decode bs)
         | [] \<Rightarrow> [REPLACEMENT])
      else REPLACEMENT # utf8_decode bs)"

declare utf8_decode.simps(2) [simp del]

text \<open>
  \<open>unquote\<close> returns a string without \<open>%\<close> as it is. Otherwise every maximal run of
  ASCII characters is unquoted to bytes and decoded, and the characters between the
  runs are kept; \<open>run\<close> is the ASCII run read so far.
\<close>

fun unquote_from :: "pystr \<Rightarrow> pystr \<Rightarrow> pystr" where
  "unquote_from run [] = utf8_decode (unquote_to_bytes run)"
| "unquote_from run (c # cs) =
     (if c < 128 then unquote_from (run @ [c]) cs
      else utf8_decode (unquote_to_bytes run) @ c # unquote_from [] cs)"

definition unquote :: "pystr \<Rightarrow> pystr" where
  "unquote s = (if PERCENT \<notin> set s then s else unquote_from [] s)"

definition url_to_filename :: "pystr \<Rightarrow> exn + pystr" where
  "url_to_filename url =
     (case urlparse_path url of
        Inl e \<Rightarrow> Inl e
      | Inr path \<Rightarrow> Inr (unquote (basename path)))"

section \<open>Files, network and console\<close>

text \<open>
  The world the program acts on. \<open>fs\<close> maps a path, as the string the program uses, to
  what is there (text and binary files alike hold a list of numbers). \<open>os_fault\<close> gives
  the error the operating system raises for an operation on a path for reasons outside
  this model (permissions, a missing parent directory, a path that is no file name).
  \<open>net n url\<close> is the outcome of the \<open>n\<close>-th GET request when it asks for \<open>url\<close>;
  \<open>requests\<close> lists the requests issued so far and \<open>stdout\<close> what was printed.
  \<open>fitz_parse\<close> is what PyMuPDF makes of a file's content: the page count, or the
  exception it raises.
\<close>

datatype node = File "nat list" | Dir

datatype os_op = Makedirs | OpenWrite | OpenAppend | Remove

text \<open>
  \<open>NoResponse e\<close>: \<open>requests.get\<close> raises the \<open>RequestException\<close> \<open>e\<close>.
  \<open>Response status chunks err\<close>: it returns a response with this status code whose
  \<open>iter_content\<close> yields \<open>chunks\<close> and then, if \<open>err\<close> is given, raises that
  \<open>RequestException\<close>.
\<close>

datatype reply = NoResponse pystr | Response nat "nat list list" "pystr option"

datatype console_line =
    FileAlreadyExists pystr
  | Downloaded pystr
  | FailedToDownload pystr pystr
  | NoPages pystr
  | Message pystr
  | InvalidPdfDeleting pystr
  | UppercaseFound pystr

record world =
  fs :: "pystr \<Rightarrow> node option"
  os_fault :: "os_op \<Rightarrow> pystr \<Rightarrow> pystr option"
  net :: "nat \<Rightarrow> pystr \<Rightarrow> reply"
  requests :: "pystr list"
  stdout :: "console_line list"
  fitz_parse :: "nat list \<Rightarrow> exn + nat"

definition emit :: "console_line \<Rightarrow> world \<Rightarrow> world" where
  "emit m w = w\<lparr>stdout := stdout w @ [m]\<rparr>"

text \<open>\<open>os.path.join\<close> of two components (POSIX).\<close>

definition os_path_join :: "pystr \<Rightarrow> pystr \<Rightarrow> pystr" where
  "os_path_join a b =
     (if b \<noteq> [] \<and> hd b = SLASH then b
      else if a = [] \<or> last a = SLASH then a @ b
      else a @ [SLASH] @ b)"

text \<open>\<open>os.makedirs(name, exist_ok=True)\<close> for a single component.\<close>

definition os_makedirs :: "pystr \<Rightarrow> world \<Rightarrow> exn + world" where
  "os_makedirs name w =
     (case os_fault w Makedirs name of
        Some e \<Rightarrow> Inl (OSError e)
      | None \<Rightarrow>
          (case fs w name of
             Some (File c) \<Rightarrow> Inl (OSError (cps ''File exists''))
           | Some Dir \<Rightarrow> Inr w
           | None \<Rightarrow> Inr (w\<lparr>fs := (fs w)(name \<mapsto> Dir)\<rparr>)))"

definition check_file_exists :: "pystr \<Rightarrow> world \<Rightarrow> bool" where
  "check_file_exists system_path w =
     (case fs w system_path of Some (File c) \<Rightarrow> True | _ \<Rightarrow> False)"

text \<open>\<open>open(path, "wb")\<close>: the file is created, or emptied when it exists.\<close>

definition open_wb :: "pystr \<Rightarrow> world \<Rightarrow> exn + world" where
  "open_wb path w =
     (case os_fault w OpenWrite path of
        Some e \<Rightarrow> Inl (OSError e)
      | None \<Rightarrow>
          (case fs w path of
             Some Dir \<Rightarrow> Inl (OSError (cps ''Is a directory''))
           | _ \<Rightarrow> Inr (w\<lparr>fs := (fs w)(path \<mapsto> File [])\<rparr>)))"

definition file_write :: "pystr \<Rightarrow> nat list \<Rightarrow> world \<Rightarrow> world" where
  "file_write path content w =
     (case fs w path of
        Some (File c) \<Rightarrow> w\<lparr>fs := (fs w)(path \<mapsto> File (c @ content))\<rparr>
      | _ \<Rightarrow> w\<lparr>fs := (fs w)(path \<mapsto> File content)\<rparr>)"



definition requests_get :: "pystr \<Rightarrow> world \<Rightarrow> reply \<times> world" where
  "requests_get url w = (net w (length (requests w)) url, w\<lparr>requests := requests w @ [url]\<rparr>)"

text \<open>\<open>raise_for_status\<close> raises \<open>HTTPError\<close> for the status codes 400 to 599.\<close>

definition http_error :: "nat \<Rightarrow> bool" where
  "http_error status = (400 \<le> status \<and> status < 600)"

text \<open>The loop over \<open>iter_content\<close>: every non-empty chunk is written.\<close>

fun write_chunks :: "pystr \<Rightarrow> nat list list \<Rightarrow> world \<Rightarrow> world" where
  "write_chunks path [] w = w"
| "write_chunks path (chunk # chunks) w =
     (if chunk \<noteq> [] then write_chunks path chunks (file_write path chunk w)
      else write_chunks path chunks w)"

section \<open>The fetcher\<close>

definition save_folder :: pystr where
  "save_folder = cps ''PDFs''"

text \<open>
  The body of the \<open>try\<close> in \<open>download_pdf\<close>. It returns the exception that leaves it, if
  any, and the world it leaves behind. The parameter \<open>local_file_path\<close> is assigned
  before it is read.
\<close>

definition download_body :: "pystr \<Rightarrow> pystr \<Rightarrow> world \<Rightarrow> exn option \<times> world" where
  "download_body pdf_url local_file_path w =
     (case os_makedirs save_folder w of
        Inl e \<Rightarrow> (Some e, w)
      | Inr w1 \<Rightarrow>
          (case url_to_filename pdf_url of
             Inl e \<Rightarrow> (Some e, w1)
           | Inr filename \<Rightarrow>
               (let local_file_path = os_path_join save_folder filename in
                if check_file_exists local_file_path w1
                then (None, emit (FileAlreadyExists local_file_path) w1)
                else
                  (case requests_get pdf_url w1 of
                     (NoResponse err, w2) \<Rightarrow> (Some (RequestException err), w2)
                   | (Response status chunks err, w2) \<Rightarrow>
                       (if http_error status
                        then (Some (RequestException (cps ''HTTPError'')), w2)
                        else
                          (case open_wb local_file_path w2 of
                             Inl e \<Rightarrow> (Some e, w2)
                           | Inr w3 \<Rightarrow>
                               (let w4 = write_chunks local_file_path chunks w3 in
                                case err of
                                  Some e \<Rightarrow> (Some (RequestException e), w4)
                                | None \<Rightarrow> (None, emit (Downloaded local_file_path) w4))))))))"

text \<open>
  \<open>download_pdf\<close>: the \<open>except\<close> clause catches \<open>RequestException\<close> and prints; any other
  exception leaves the function.
\<close>

definition download_pdf :: "pystr \<Rightarrow> pystr \<Rightarrow> world \<Rightarrow> exn option \<times> world" where
  "download_pdf pdf_url local_file_path w =
     (case download_body pdf_url local_file_path w of
        (Some (RequestException error), w') \<Rightarrow> (None, emit (FailedToDownload pdf_url error) w')
      | r \<Rightarrow> r)"

section \<open>The validator\<close>

text \<open>\<open>fitz.open(path)\<close>: what is no file raises PyMuPDF's \<open>FileNotFoundError\<close>, a \<open>RuntimeError\<close>.\<close>

definition fitz_open :: "pystr \<Rightarrow> world \<Rightarrow> exn + nat" where
  "fitz_open file_path w =
     (case fs w file_path of
        Some (File c) \<Rightarrow> fitz_parse w c
      | _ \<Rightarrow> Inl (RuntimeError (cps ''is no file'')))"

definition validate_pdf_file :: "pystr \<Rightarrow> world \<Rightarrow> (exn + bool) \<times> world" where
  "validate_pdf_file file_path w =
     (case fitz_open file_path w of
        Inr page_count \<Rightarrow>
          (if page_count = 0 then (Inr False, emit (NoPages file_path) w) else (Inr True, w))
      | Inl (RuntimeError e) \<Rightarrow> (Inr False, emit (Message e) w)
      | Inl e \<Rightarrow> (Inl e, w))"



section \<open>The two loops of main\<close>


definition selected :: "pystr \<Rightarrow> bool" where
  "selected line = (contains line (cps ''.pdf'') \<or> contains line (cps ''.docx''))"

text \<open>The two trimming statements of the loop body.\<close>

definition trim_line :: "pystr \<Rightarrow> pystr" where
  "trim_line line =
     removesuffix (removeprefix line (cps ''\"url\": \"'')) (cps ''.thumb.319.319.png\"'')"



section \<open>Example worlds\<close>

text \<open>
  An empty file system, no operating-system faults, a server that answers every
  request with status 200 and a body of two chunks, and a parser that finds one page in
  every non-empty file and rejects the empty one.
\<close>

definition example_world :: world where
  "example_world =
     \<lparr>fs = (\<lambda>p. None), os_fault = (\<lambda>op p. None),
      net = (\<lambda>n url. Response 200 [[37, 80], [68, 70]] None),
      requests = [], stdout = [],
      fitz_parse = (\<lambda>c. if c = [] then Inl (RuntimeError (cps ''empty file'')) else Inr 1)\<rparr>"


text \<open>A download directory with an empty file and a file that starts like a PDF.\<close>

definition pdf_world :: world where
  "pdf_world =
     example_world\<lparr>fs := [cps ''PDFs/empty.pdf'' \<mapsto> File [],
                             cps ''PDFs/ok.pdf'' \<mapsto> File [37, 80, 68, 70]]\<rparr>"

text \<open>The input of the first end-to-end scenario: three lines, the second the URL line.\<close>

definition scenario_text :: pystr where
  "scenario_text =
     cps ''{'' @ [NL] @ cps ''  \"url\": \"https://example.com/a%20b.pdf.thumb.319.319.png\"'' @ [NL]
     @ cps ''}'' @ [NL]"

section \<open>Observations used in the claims\<close>








section \<open>The shape of a match\<close>

text \<open>
  What the pattern of the extractor describes: white space, the key \<^verbatim>\<open>"url":\<close>, white
  space, and a quoted value without a quote or a newline in it.
\<close>

definition url_shape :: "pystr \<Rightarrow> bool" where
  "url_shape r =
     (\<exists>ws ws' v. r = ws @ cps ''\"url\":'' @ ws' @ [QUOTE] @ v @ [QUOTE]
        \<and> (\<forall>c\<in>set ws. isspace c) \<and> (\<forall>c\<in>set ws'. isspace c)
        \<and> QUOTE \<notin> set v \<and> NL \<notin> set v)"

text \<open>Position \<open>i\<close> of the text is its start or follows a newline.\<close>

definition at_line_start :: "pystr \<Rightarrow> nat \<Rightarrow> bool" where
  "at_line_start text i = (i = 0 \<or> (i \<le> length text \<and> text ! (i - 1) = NL))"

text \<open>
  The extractor in the words of the specification, to compare \<open>extract_url_lines\<close>
  with: every line of the text, taken by itself, that the pattern matches.
\<close>

definition extract_candidate_lines_spec :: "pystr \<Rightarrow> pystr list" where
  "extract_candidate_lines_spec text =
     filter (\<lambda>line. match_here url_pattern True line \<noteq> None) (split_on NL text)"

text \<open>A line with a comma behind the value, as the lines of a capture file are.\<close>

definition comma_text :: pystr where
  "comma_text = cps ''  \"url\": \"https://example.com/a.pdf\",''"

section \<open>Basic facts about the world operations\<close>

lemma emit_fields [simp]:
  "fs (emit m w) = fs w" "requests (emit m w) = requests w" "os_fault (emit m w) = os_fault w"
  "net (emit m w) = net w" "fitz_parse (emit m w) = fitz_parse w"
  "stdout (emit m w) = stdout w @ [m]"
  by (simp_all add: emit_def)

lemma file_write_fields [simp]:
  "requests (file_write p c w) = requests w" "os_fault (file_write p c w) = os_fault w"
  "net (file_write p c w) = net w" "fitz_parse (file_write p c w) = fitz_parse w"
  "stdout (file_write p c w) = stdout w"
  by (simp_all add: file_write_def split: option.split node.split)

lemma fs_file_write_other: "q \<noteq> p \<Longrightarrow> fs (file_write p c w) q = fs w q"
  by (simp add: file_write_def split: option.split node.split)


lemma write_chunks_fields [simp]:
  "requests (write_chunks p cs w) = requests w" "os_fault (write_chunks p cs w) = os_fault w"
  "net (write_chunks p cs w) = net w" "fitz_parse (write_chunks p cs w) = fitz_parse w"
  "stdout (write_chunks p cs w) = stdout w"
  by (induction cs arbitrary: w; simp)+

lemma fs_write_chunks_other: "q \<noteq> p \<Longrightarrow> fs (write_chunks p cs w) q = fs w q"
  by (induction cs arbitrary: w) (simp_all add: fs_file_write_other)


lemma os_makedirs_Inr:
  "os_makedirs d w = Inr w1 \<Longrightarrow>
     requests w1 = requests w \<and> stdout w1 = stdout w \<and> net w1 = net w \<and> os_fault w1 = os_fault w
     \<and> fitz_parse w1 = fitz_parse w \<and> (\<forall>q. q \<noteq> d \<longrightarrow> fs w1 q = fs w q) \<and> fs w1 d = Some Dir"
  by (auto simp: os_makedirs_def split: option.splits node.splits)

lemma open_wb_Inr:
  "open_wb p w = Inr w1 \<Longrightarrow>
     requests w1 = requests w \<and> stdout w1 = stdout w \<and> net w1 = net w \<and> os_fault w1 = os_fault w
     \<and> fitz_parse w1 = fitz_parse w \<and> (\<forall>q. q \<noteq> p \<longrightarrow> fs w1 q = fs w q) \<and> fs w1 p = Some (File [])"
  by (auto simp: open_wb_def split: option.splits node.splits)

lemma fs_download_body_other:
  assumes "q \<noteq> save_folder" and "\<And>f. url_to_filename pdf_url = Inr f \<Longrightarrow> q \<noteq> os_path_join save_folder f"
  shows "fs (snd (download_body pdf_url lp w)) q = fs w q"
  using assms
  by (auto simp: download_body_def Let_def requests_get_def fs_write_chunks_other
      split: sum.splits reply.splits option.splits prod.splits if_splits
      dest!: os_makedirs_Inr open_wb_Inr)

lemma fs_download_pdf_body: "fs (snd (download_pdf pdf_url lp w)) = fs (snd (download_body pdf_url lp w))"
  by (simp add: download_pdf_def split: prod.splits option.splits exn.splits)

text \<open>Evaluation of the running example.\<close>

lemma url_to_filename_example:
  "url_to_filename (cps ''https://example.com/a%20b.pdf'') = Inr (cps ''a b.pdf'')"
  by code_simp


section \<open>The fetcher: skipping and fetching\<close>


lemma check_file_exists_emit [simp]: "check_file_exists p (emit m w) = check_file_exists p w"
  by (simp add: check_file_exists_def)






section \<open>Failed requests\<close>


section \<open>The manifest\<close>







section \<open>The validator loop\<close>








section \<open>More of the running example\<close>





section \<open>Normalisation of plain lines\<close>












section \<open>Percent-decoding\<close>




















section \<open>The last path segment\<close>




section \<open>The claims\<close>

subsection \<open>C1: the first end-to-end scenario\<close>

text \<open>
  C1. For the input text whose second line is
  \<^verbatim>\<open>  "url": "https://example.com/a%20b.pdf.thumb.319.319.png"\<close>, the extractor returns that
  line, normalisation (strip, lower-case, remove duplicates) leaves the one stripped line,
  which is selected for download; stripping the prefix \<^verbatim>\<open>"url": "\<close> and the suffix
  \<^verbatim>\<open>.thumb.319.319.png"\<close> gives the candidate \<^verbatim>\<open>https://example.com/a%20b.pdf\<close>, and
  \<open>url_to_filename\<close> of that candidate is the percent-decoded name \<^verbatim>\<open>a b.pdf\<close>.
\<close>

theorem scenario_1:
  "extract_url_lines scenario_text
     = [cps ''  \"url\": \"https://example.com/a%20b.pdf.thumb.319.319.png\"'']
   \<and> normalize_lines (extract_url_lines scenario_text)
     = {cps ''\"url\": \"https://example.com/a%20b.pdf.thumb.319.319.png\"''}
   \<and> selected (cps ''\"url\": \"https://example.com/a%20b.pdf.thumb.319.319.png\"'')
   \<and> trim_line (cps ''\"url\": \"https://example.com/a%20b.pdf.thumb.319.319.png\"'')
     = cps ''https://example.com/a%20b.pdf''
   \<and> url_to_filename (cps ''https://example.com/a%20b.pdf'') = Inr (cps ''a b.pdf'')"
proof -
  have e: "extract_url_lines scenario_text
     = [cps ''  \"url\": \"https://example.com/a%20b.pdf.thumb.319.319.png\"'']"
    by (simp add: extract_url_lines_def findall_def finditer_def url_pattern_def scenario_text_def cps_def
        isspace_def)
  have n: "normalize_lines [cps ''  \"url\": \"https://example.com/a%20b.pdf.thumb.319.319.png\"'']
     = {cps ''\"url\": \"https://example.com/a%20b.pdf.thumb.319.319.png\"''}"
    by (simp add: normalize_lines_def remove_duplicates_from_slice_def
        remove_whitespace_from_slice_def convert_uppercase_to_lowercase_def strip_def lower_def
        lower_cp_def isupper_def splitlines_def islinebreak_def cps_def isspace_def)
  have s: "selected (cps ''\"url\": \"https://example.com/a%20b.pdf.thumb.319.319.png\"'')"
    by code_simp
  have t: "trim_line (cps ''\"url\": \"https://example.com/a%20b.pdf.thumb.319.319.png\"'')
     = cps ''https://example.com/a%20b.pdf''"
    by code_simp
  note u = url_to_filename_example
  from e n s t u show ?thesis by simp
qed

subsection \<open>C3: the validator's contract\<close>

text \<open>
  C3. \<open>validate_pdf_file\<close> returns \<open>False\<close> exactly when the document cannot be opened
  (PyMuPDF raises its parse failure, a \<open>RuntimeError\<close>) or opens with zero pages, and
  \<open>True\<close> exactly when it opens with at least one page. A parse failure is caught: the
  call then returns \<open>False\<close> with the message printed, and no exception leaves it. The
  file system is not touched.
\<close>

theorem validate_pdf_file_contract:
  "(fst (validate_pdf_file file_path w) = Inr False \<longleftrightarrow>
      (\<exists>e. fitz_open file_path w = Inl (RuntimeError e)) \<or> fitz_open file_path w = Inr 0)
   \<and> (fst (validate_pdf_file file_path w) = Inr True \<longleftrightarrow>
      (\<exists>n. fitz_open file_path w = Inr n \<and> 0 < n))
   \<and> (\<forall>e. fitz_open file_path w = Inl (RuntimeError e) \<longrightarrow>
          validate_pdf_file file_path w = (Inr False, emit (Message e) w))
   \<and> fs (snd (validate_pdf_file file_path w)) = fs w"
  by (auto simp: validate_pdf_file_def split: sum.splits exn.splits)

theorem validate_pdf_file_contract_witness:
  "fitz_open (cps ''PDFs/empty.pdf'') pdf_world = Inl (RuntimeError (cps ''empty file''))
   \<and> validate_pdf_file (cps ''PDFs/empty.pdf'') pdf_world
       = (Inr False, emit (Message (cps ''empty file'')) pdf_world)
   \<and> fitz_open (cps ''PDFs/ok.pdf'') pdf_world = Inr 1
   \<and> fst (validate_pdf_file (cps ''PDFs/ok.pdf'') pdf_world) = Inr True"
proof -
  have a: "fitz_open (cps ''PDFs/empty.pdf'') pdf_world = Inl (RuntimeError (cps ''empty file''))"
    by (simp add: fitz_open_def pdf_world_def example_world_def cps_def)
  have b: "fitz_open (cps ''PDFs/ok.pdf'') pdf_world = Inr 1"
    by (simp add: fitz_open_def pdf_world_def example_world_def cps_def)
  from a b validate_pdf_file_contract [of "cps ''PDFs/empty.pdf''" pdf_world]
    validate_pdf_file_contract [of "cps ''PDFs/ok.pdf''" pdf_world]
  show ?thesis by simp
qed

subsection \<open>C10: the parameter \<open>local_file_path\<close> of \<open>download_pdf\<close>\<close>

text \<open>
  C10. For every URL and every two values of the argument \<open>local_file_path\<close>,
  \<open>download_pdf\<close> behaves identically: the argument is overwritten before it is read. The
  destination is always \<open>PDFs\<close> joined with the file name derived from the URL: no other
  path of the file system changes (but the directory \<open>PDFs\<close> itself, which is created).
\<close>

theorem download_pdf_ignores_local_file_path:
  "download_pdf pdf_url path1 w = download_pdf pdf_url path2 w
   \<and> (\<forall>q. q \<noteq> save_folder \<longrightarrow>
          (\<forall>f. url_to_filename pdf_url = Inr f \<longrightarrow> q \<noteq> os_path_join save_folder f) \<longrightarrow>
          fs (snd (download_pdf pdf_url path1 w)) q = fs w q)"
proof -
  have "download_pdf pdf_url path1 w = download_pdf pdf_url path2 w"
    by (simp add: download_pdf_def download_body_def)
  moreover have "fs (snd (download_pdf pdf_url path1 w)) q = fs w q"
    if "q \<noteq> save_folder" "\<forall>f. url_to_filename pdf_url = Inr f \<longrightarrow> q \<noteq> os_path_join save_folder f" for q
    using that by (simp add: fs_download_pdf_body fs_download_body_other)
  ultimately show ?thesis by blast
qed

theorem download_pdf_ignores_local_file_path_witness:
  "download_pdf (cps ''https://example.com/a%20b.pdf'') (cps ''a b.pdf'') example_world
     = download_pdf (cps ''https://example.com/a%20b.pdf'') (cps ''elsewhere/c.pdf'') example_world
   \<and> fs (snd (download_pdf (cps ''https://example.com/a%20b.pdf'') (cps ''elsewhere/c.pdf'')
        example_world)) (cps ''elsewhere/c.pdf'') = None"
proof -
  note u = url_to_filename_example
  have "cps ''elsewhere/c.pdf'' \<noteq> save_folder"
    by (simp add: save_folder_def cps_def)
  moreover have "\<forall>f. url_to_filename (cps ''https://example.com/a%20b.pdf'') = Inr f \<longrightarrow>
      cps ''elsewhere/c.pdf'' \<noteq> os_path_join save_folder f"
    by (simp add: u) (simp add: os_path_join_def save_folder_def cps_def)
  moreover have "fs example_world (cps ''elsewhere/c.pdf'') = None"
    by (simp add: example_world_def)
  ultimately show ?thesis
    using download_pdf_ignores_local_file_path
      [of "cps ''https://example.com/a%20b.pdf''" "cps ''elsewhere/c.pdf''" example_world "cps ''a b.pdf''"]
    by metis
qed

subsection \<open>C2: an existing file is skipped; fetching twice\<close>




subsection \<open>C5: the manifest\<close>



subsection \<open>C6: a failed request\<close>




subsection \<open>C9: the upper-case flag\<close>



subsection \<open>C7: normalisation twice\<close>




subsection \<open>C8: the file name of a URL\<close>




end
